theory Spec2Isabelle
  imports Complex_Main "HOL-Library.Monad_Syntax"
begin

section \<open>Numbers\<close>

text \<open>
  Every number the calculator works on enters through
  \<^verbatim>\<open>parseFloat(e.target.value) || 0\<close> or is a literal of the source, so it is a
  finite number (possibly negative, never NaN). The model takes these numbers as exact
  reals: the rounding of IEEE doubles is not part of it. \<^verbatim>\<open>Infinity\<close>, which the
  margin table produces on purpose, is a value of its own.
\<close>

datatype number = Fin real | Infinity

fun isFinite :: "number \<Rightarrow> bool" where
  "isFinite (Fin _) = True"
| "isFinite Infinity = False"

text \<open>\<^verbatim>\<open>Math.ceil\<close> and \<^verbatim>\<open>Math.round\<close> (which rounds a half towards plus infinity).\<close>

definition Math_ceil :: "real \<Rightarrow> real" where
  "Math_ceil x = of_int \<lceil>x\<rceil>"

definition Math_round :: "real \<Rightarrow> real" where
  "Math_round x = of_int \<lfloor>x + 1 / 2\<rfloor>"

section \<open>The preset and bundle edition (\<^verbatim>\<open>src/unnamed/part_002\<close>)\<close>

subsection \<open>Data\<close>

text \<open>\<^verbatim>\<open>interface CalcInputs\<close> of this edition: no tax, no per-transaction cents.\<close>

record BundleCalcInputs =
  sellingPrice :: real
  cogs :: real
  adSpend :: real
  feesPercent :: real
  otherCostsPercent :: real
  fixedFeesPerUnit :: real
  monthlyOverhead :: real
  unitsSold :: real

record BundleTier =
  quantity :: real
  price :: real
  cogsPerUnit :: real

record BundleResults =
  quantity :: real
  price :: real
  totalCogs :: real
  profitPerOrder :: real
  breakevenRoas :: real
  breakevenOrders :: real

text \<open>The object this edition's \<^verbatim>\<open>results\<close> memo returns.\<close>

record PresetResults =
  isValid :: bool
  breakevenRoas :: real
  breakevenUnits :: real
  profitPerUnit :: real

subsection \<open>\<^verbatim>\<open>bundleResults\<close> (lines 210--222)\<close>


subsection \<open>\<^verbatim>\<open>results\<close> of this edition (lines 224--244)\<close>




section \<open>The calculator of \<^verbatim>\<open>src/components/calculator.tsx\<close>\<close>

subsection \<open>Data\<close>

text \<open>An entry of the margin table, as the \<^verbatim>\<open>marginScenarios\<close> memo builds it.\<close>

record MarginScenario =
  margin :: real
  price :: real
  profit :: real
  breakevenRoas :: number
  breakevenOrders :: number

text \<open>The object the \<^verbatim>\<open>results\<close> memo returns.\<close>

record UnitResults =
  hasSellingPrice :: bool
  breakevenRoas :: real
  breakevenUnits :: real
  profitPerUnit :: real
  hasAdSpend :: bool

text \<open>
  \<^verbatim>\<open>interface CalcInputs\<close>. The later edition in the same file has one more field,
  \<^verbatim>\<open>refundPercent\<close>; it is the extension \<open>CalcInputsRefund\<close>.
\<close>

record CalcInputs =
  sellingPrice :: real
  cogs :: real
  taxPercent :: real
  adSpend :: real
  feesPercent :: real
  feesCents :: real
  otherCostsPercent :: real
  fixedFeesPerUnit :: real
  monthlyOverhead :: real

record CalcInputsRefund = CalcInputs +
  refundPercent :: real

subsection \<open>\<^verbatim>\<open>results\<close>: the single-point calculation\<close>

text \<open>
  The edition without \<^verbatim>\<open>refundPercent\<close> (lines 169--187; the same body stands in
  \<^verbatim>\<open>src/unnamed/part_001\<close>, whose inputs carry an unused \<^verbatim>\<open>unitsSold\<close>).
  \<^verbatim>\<open>!sellingPrice\<close> holds of a finite number exactly when it is zero.
\<close>

definition results :: "'a CalcInputs_scheme \<Rightarrow> UnitResults" where
  "results inputs =
    (if sellingPrice inputs = 0 \<or> sellingPrice inputs \<le> 0 then
       \<lparr> hasSellingPrice = False, breakevenRoas = 0, breakevenUnits = 0,
         profitPerUnit = 0, hasAdSpend = False \<rparr>
     else
       let grossMargin = sellingPrice inputs - cogs inputs - fixedFeesPerUnit inputs;
           processingFees =
             (sellingPrice inputs * (feesPercent inputs / 100)) + (feesCents inputs / 100);
           taxCost = sellingPrice inputs * (taxPercent inputs / 100);
           otherCosts = sellingPrice inputs * (otherCostsPercent inputs / 100);
           profitPerUnit' = grossMargin - processingFees - taxCost - otherCosts;
           fixedCosts = adSpend inputs + monthlyOverhead inputs;
           breakevenUnits' =
             (if profitPerUnit' > 0 \<and> fixedCosts > 0
              then Math_ceil (fixedCosts / profitPerUnit') else 0);
           breakevenRoas' =
             (if profitPerUnit' > 0 then sellingPrice inputs / profitPerUnit' else 0)
       in \<lparr> hasSellingPrice = True, breakevenRoas = breakevenRoas',
            breakevenUnits = breakevenUnits', profitPerUnit = profitPerUnit',
            hasAdSpend = (adSpend inputs > 0) \<rparr>)"

text \<open>The edition with \<^verbatim>\<open>refundPercent\<close> (lines 585--603).\<close>

definition results_refund :: "'a CalcInputsRefund_scheme \<Rightarrow> UnitResults" where
  "results_refund inputs =
    (if sellingPrice inputs = 0 \<or> sellingPrice inputs \<le> 0 then
       \<lparr> hasSellingPrice = False, breakevenRoas = 0, breakevenUnits = 0,
         profitPerUnit = 0, hasAdSpend = False \<rparr>
     else
       let grossMargin = sellingPrice inputs - cogs inputs - fixedFeesPerUnit inputs;
           processingFees =
             (sellingPrice inputs * (feesPercent inputs / 100)) + (feesCents inputs / 100);
           taxCost = sellingPrice inputs * (taxPercent inputs / 100);
           refundCost = sellingPrice inputs * (refundPercent inputs / 100);
           otherCosts = sellingPrice inputs * (otherCostsPercent inputs / 100);
           profitPerUnit' =
             grossMargin - processingFees - taxCost - refundCost - otherCosts;
           fixedCosts = adSpend inputs + monthlyOverhead inputs;
           breakevenUnits' =
             (if profitPerUnit' > 0 \<and> fixedCosts > 0
              then Math_ceil (fixedCosts / profitPerUnit') else 0);
           breakevenRoas' =
             (if profitPerUnit' > 0 then sellingPrice inputs / profitPerUnit' else 0)
       in \<lparr> hasSellingPrice = True, breakevenRoas = breakevenRoas',
            breakevenUnits = breakevenUnits', profitPerUnit = profitPerUnit',
            hasAdSpend = (adSpend inputs > 0) \<rparr>)"

subsection \<open>\<^verbatim>\<open>marginScenarios\<close>: the margin table (lines 151--167)\<close>

definition TARGET_MARGINS :: "real list" where
  "TARGET_MARGINS = [0, 0.10, 0.20, 0.30, 0.40, 0.50]"

text \<open>
  \<^verbatim>\<open>isFinite(x) ? f(x) : Infinity\<close> is the case distinction on \<open>number\<close>. The edition of
  \<^verbatim>\<open>src/unnamed/part_001\<close> computes two more locals that it never uses.
\<close>

definition marginScenarios :: "'a CalcInputs_scheme \<Rightarrow> MarginScenario list" where
  "marginScenarios inputs =
    map (\<lambda>margin'.
      let targetProfit = sellingPrice inputs * margin';
          breakevenRoas' =
            (if targetProfit > 0.01 then Fin (sellingPrice inputs / targetProfit)
             else Infinity);
          breakevenOrders' =
            (if targetProfit > 0.01 then Fin (Math_ceil (adSpend inputs / targetProfit))
             else Infinity)
      in \<lparr> margin = margin', price = sellingPrice inputs,
           profit = Math_round (targetProfit * 100) / 100,
           MarginScenario.breakevenRoas =
             (case breakevenRoas' of
                Fin r \<Rightarrow> Fin (Math_round (r * 100) / 100)
              | Infinity \<Rightarrow> Infinity),
           breakevenOrders =
             (if isFinite breakevenOrders' then breakevenOrders' else Infinity) \<rparr>)
      TARGET_MARGINS"

subsection \<open>The same computations with every division checked\<close>

text \<open>
  JavaScript's division never throws: a zero divisor yields \<^verbatim>\<open>Infinity\<close> or \<^verbatim>\<open>NaN\<close>.
  To say that no division of the memos ever meets a zero divisor, their bodies are
  repeated here with each \<^verbatim>\<open>/\<close> replaced by a division that fails (\<open>None\<close>) on a zero
  divisor.
\<close>

definition divide_checked :: "real \<Rightarrow> real \<Rightarrow> real option" where
  "divide_checked a b = (if b = 0 then None else Some (a / b))"

definition results_checked :: "'a CalcInputs_scheme \<Rightarrow> UnitResults option" where
  "results_checked inputs =
    (if sellingPrice inputs = 0 \<or> sellingPrice inputs \<le> 0 then
       Some \<lparr> hasSellingPrice = False, breakevenRoas = 0, breakevenUnits = 0,
              profitPerUnit = 0, hasAdSpend = False \<rparr>
     else do {
       let grossMargin = sellingPrice inputs - cogs inputs - fixedFeesPerUnit inputs;
       feesRate \<leftarrow> divide_checked (feesPercent inputs) 100;
       feesFlat \<leftarrow> divide_checked (feesCents inputs) 100;
       let processingFees = (sellingPrice inputs * feesRate) + feesFlat;
       taxRate \<leftarrow> divide_checked (taxPercent inputs) 100;
       let taxCost = sellingPrice inputs * taxRate;
       otherRate \<leftarrow> divide_checked (otherCostsPercent inputs) 100;
       let otherCosts = sellingPrice inputs * otherRate;
       let profitPerUnit' = grossMargin - processingFees - taxCost - otherCosts;
       let fixedCosts = adSpend inputs + monthlyOverhead inputs;
       breakevenUnits' \<leftarrow>
         (if profitPerUnit' > 0 \<and> fixedCosts > 0
          then map_option Math_ceil (divide_checked fixedCosts profitPerUnit')
          else Some 0);
       breakevenRoas' \<leftarrow>
         (if profitPerUnit' > 0 then divide_checked (sellingPrice inputs) profitPerUnit'
          else Some 0);
       Some \<lparr> hasSellingPrice = True, breakevenRoas = breakevenRoas',
              breakevenUnits = breakevenUnits', profitPerUnit = profitPerUnit',
              hasAdSpend = (adSpend inputs > 0) \<rparr>
     })"

definition results_refund_checked :: "'a CalcInputsRefund_scheme \<Rightarrow> UnitResults option" where
  "results_refund_checked inputs =
    (if sellingPrice inputs = 0 \<or> sellingPrice inputs \<le> 0 then
       Some \<lparr> hasSellingPrice = False, breakevenRoas = 0, breakevenUnits = 0,
              profitPerUnit = 0, hasAdSpend = False \<rparr>
     else do {
       let grossMargin = sellingPrice inputs - cogs inputs - fixedFeesPerUnit inputs;
       feesRate \<leftarrow> divide_checked (feesPercent inputs) 100;
       feesFlat \<leftarrow> divide_checked (feesCents inputs) 100;
       let processingFees = (sellingPrice inputs * feesRate) + feesFlat;
       taxRate \<leftarrow> divide_checked (taxPercent inputs) 100;
       let taxCost = sellingPrice inputs * taxRate;
       refundRate \<leftarrow> divide_checked (refundPercent inputs) 100;
       let refundCost = sellingPrice inputs * refundRate;
       otherRate \<leftarrow> divide_checked (otherCostsPercent inputs) 100;
       let otherCosts = sellingPrice inputs * otherRate;
       let profitPerUnit' =
         grossMargin - processingFees - taxCost - refundCost - otherCosts;
       let fixedCosts = adSpend inputs + monthlyOverhead inputs;
       breakevenUnits' \<leftarrow>
         (if profitPerUnit' > 0 \<and> fixedCosts > 0
          then map_option Math_ceil (divide_checked fixedCosts profitPerUnit')
          else Some 0);
       breakevenRoas' \<leftarrow>
         (if profitPerUnit' > 0 then divide_checked (sellingPrice inputs) profitPerUnit'
          else Some 0);
       Some \<lparr> hasSellingPrice = True, breakevenRoas = breakevenRoas',
              breakevenUnits = breakevenUnits', profitPerUnit = profitPerUnit',
              hasAdSpend = (adSpend inputs > 0) \<rparr>
     })"

text \<open>One entry of the margin table, checked; the table fails when an entry does.\<close>

definition marginScenario_checked ::
  "'a CalcInputs_scheme \<Rightarrow> real \<Rightarrow> MarginScenario option" where
  "marginScenario_checked inputs margin' =
    do {
      let targetProfit = sellingPrice inputs * margin';
      breakevenRoas' \<leftarrow>
        (if targetProfit > 0.01
         then map_option Fin (divide_checked (sellingPrice inputs) targetProfit)
         else Some Infinity);
      breakevenOrders' \<leftarrow>
        (if targetProfit > 0.01
         then map_option (\<lambda>q. Fin (Math_ceil q)) (divide_checked (adSpend inputs) targetProfit)
         else Some Infinity);
      profit' \<leftarrow> divide_checked (Math_round (targetProfit * 100)) 100;
      roundedRoas \<leftarrow>
        (case breakevenRoas' of
           Fin r \<Rightarrow> map_option Fin (divide_checked (Math_round (r * 100)) 100)
         | Infinity \<Rightarrow> Some Infinity);
      Some \<lparr> margin = margin', price = sellingPrice inputs, profit = profit',
             MarginScenario.breakevenRoas = roundedRoas,
             breakevenOrders =
               (if isFinite breakevenOrders' then breakevenOrders' else Infinity) \<rparr>
    }"

definition marginScenarios_checked ::
  "'a CalcInputs_scheme \<Rightarrow> MarginScenario list option" where
  "marginScenarios_checked inputs =
    those (map (marginScenario_checked inputs) TARGET_MARGINS)"

subsection \<open>The fee plan (lines 43--50 and 135--148)\<close>

datatype ShopifyPlan = basic | shopify | advanced | custom

record PlanFees =
  percent :: real
  cents :: real
  label :: string

text \<open>
  \<^verbatim>\<open>SHOPIFY_FEES\<close>, a record keyed by every plan. The labels end in a cent sign,
  the character of code 162.
\<close>

definition SHOPIFY_FEES :: "ShopifyPlan \<Rightarrow> PlanFees" where
  "SHOPIFY_FEES plan =
    (case plan of
       basic \<Rightarrow>
         \<lparr> percent = 2.9, cents = 30, label = ''Basic (2.9% + 30'' @ [CHR 0xA2] @ '')'' \<rparr>
     | shopify \<Rightarrow>
         \<lparr> percent = 2.6, cents = 30, label = ''Shopify (2.6% + 30'' @ [CHR 0xA2] @ '')'' \<rparr>
     | advanced \<Rightarrow>
         \<lparr> percent = 2.4, cents = 30, label = ''Advanced (2.4% + 30'' @ [CHR 0xA2] @ '')'' \<rparr>
     | custom \<Rightarrow> \<lparr> percent = 0, cents = 0, label = ''Custom'' \<rparr>)"

text \<open>\<^verbatim>\<open>keyof CalcInputs\<close>: the nine keys an edit can name.\<close>

datatype CalcKey =
  K_sellingPrice | K_cogs | K_taxPercent | K_adSpend | K_feesPercent | K_feesCents
  | K_otherCostsPercent | K_fixedFeesPerUnit | K_monthlyOverhead

text \<open>\<^verbatim>\<open>{ ...prev, [key]: value }\<close>\<close>

fun setField :: "CalcKey \<Rightarrow> real \<Rightarrow> CalcInputs \<Rightarrow> CalcInputs" where
  "setField K_sellingPrice v prev = prev\<lparr>sellingPrice := v\<rparr>"
| "setField K_cogs v prev = prev\<lparr>cogs := v\<rparr>"
| "setField K_taxPercent v prev = prev\<lparr>taxPercent := v\<rparr>"
| "setField K_adSpend v prev = prev\<lparr>adSpend := v\<rparr>"
| "setField K_feesPercent v prev = prev\<lparr>feesPercent := v\<rparr>"
| "setField K_feesCents v prev = prev\<lparr>feesCents := v\<rparr>"
| "setField K_otherCostsPercent v prev = prev\<lparr>otherCostsPercent := v\<rparr>"
| "setField K_fixedFeesPerUnit v prev = prev\<lparr>fixedFeesPerUnit := v\<rparr>"
| "setField K_monthlyOverhead v prev = prev\<lparr>monthlyOverhead := v\<rparr>"

text \<open>
  The two pieces of component state the handlers write: \<^verbatim>\<open>inputs\<close> and
  \<^verbatim>\<open>shopifyPlan\<close>. Each handler returns the state after its setters have run.
\<close>

record CalcState =
  inputs :: CalcInputs
  shopifyPlan :: ShopifyPlan

definition updateInput :: "CalcKey \<Rightarrow> real \<Rightarrow> CalcState \<Rightarrow> CalcState" where
  "updateInput key v st =
    (let st1 = st\<lparr>inputs := setField key v (inputs st)\<rparr>
     in if key = K_feesPercent \<or> key = K_feesCents
        then st1\<lparr>shopifyPlan := custom\<rparr> else st1)"

definition handlePlanChange :: "ShopifyPlan \<Rightarrow> CalcState \<Rightarrow> CalcState" where
  "handlePlanChange plan st =
    (let st1 = st\<lparr>shopifyPlan := plan\<rparr>
     in if plan \<noteq> custom
        then
          let fees = SHOPIFY_FEES plan
          in st1\<lparr>inputs := (inputs st1)\<lparr>feesPercent := percent fees, feesCents := cents fees\<rparr>\<rparr>
        else st1)"

subsection \<open>Initial states\<close>

text \<open>The initial state of the form, the example of the specification.\<close>

definition initialInputs :: CalcInputs where
  "initialInputs =
    \<lparr> sellingPrice = 50, cogs = 10, taxPercent = 0, adSpend = 0, feesPercent = 2.9,
      feesCents = 30, otherCostsPercent = 0, fixedFeesPerUnit = 0, monthlyOverhead = 0 \<rparr>"

definition initialInputsRefund :: CalcInputsRefund where
  "initialInputsRefund =
    \<lparr> sellingPrice = 50, cogs = 10, taxPercent = 0, adSpend = 0, feesPercent = 2.9,
      feesCents = 30, otherCostsPercent = 0, fixedFeesPerUnit = 0, monthlyOverhead = 0,
      refundPercent = 0 \<rparr>"

definition initialState :: CalcState where
  "initialState = \<lparr> inputs = initialInputs, shopifyPlan = basic \<rparr>"

section \<open>Theorems\<close>

subsection \<open>The single-point calculation\<close>

text \<open>
  C1. With a positive selling price, the profit per unit returned is the selling price
  minus the cost of goods, the fixed fees per unit, the processing fees
  (price times feesPercent/100 plus feesCents/100), the tax cost, the refund cost (zero
  in the edition that has no refundPercent) and the other costs, each of the last three
  being the price times its percentage over 100.
\<close>

theorem profitPerUnit_formula:
  fixes cfg :: "'a CalcInputs_scheme" and cfgR :: "'b CalcInputsRefund_scheme"
  shows
    "(0 < sellingPrice cfg \<longrightarrow>
        UnitResults.profitPerUnit (results cfg) =
          sellingPrice cfg - cogs cfg - fixedFeesPerUnit cfg
          - (sellingPrice cfg * (feesPercent cfg / 100) + feesCents cfg / 100)
          - sellingPrice cfg * (taxPercent cfg / 100)
          - 0
          - sellingPrice cfg * (otherCostsPercent cfg / 100))
     \<and> (0 < sellingPrice cfgR \<longrightarrow>
        UnitResults.profitPerUnit (results_refund cfgR) =
          sellingPrice cfgR - cogs cfgR - fixedFeesPerUnit cfgR
          - (sellingPrice cfgR * (feesPercent cfgR / 100) + feesCents cfgR / 100)
          - sellingPrice cfgR * (taxPercent cfgR / 100)
          - sellingPrice cfgR * (refundPercent cfgR / 100)
          - sellingPrice cfgR * (otherCostsPercent cfgR / 100))"
  by (simp add: results_def results_refund_def Let_def)

theorem profitPerUnit_formula_witness:
  "UnitResults.profitPerUnit (results initialInputs) = 38.25
   \<and> UnitResults.profitPerUnit
        (results_refund (initialInputsRefund\<lparr>refundPercent := 10\<rparr>)) = 33.25"
  using profitPerUnit_formula [of initialInputs "initialInputsRefund\<lparr>refundPercent := 10\<rparr>"]
  by (simp add: initialInputs_def initialInputsRefund_def)



text \<open>
  C3. With a selling price that is zero or negative, the result is the invalid
  sentinel: hasSellingPrice is false and every numeric output is zero.
\<close>

theorem invalid_sentinel:
  fixes cfg :: "'a CalcInputs_scheme" and cfgR :: "'b CalcInputsRefund_scheme"
  shows
    "(sellingPrice cfg \<le> 0 \<longrightarrow>
        results cfg =
          \<lparr> hasSellingPrice = False, breakevenRoas = 0, breakevenUnits = 0,
            profitPerUnit = 0, hasAdSpend = False \<rparr>)
     \<and> (sellingPrice cfgR \<le> 0 \<longrightarrow>
        results_refund cfgR =
          \<lparr> hasSellingPrice = False, breakevenRoas = 0, breakevenUnits = 0,
            profitPerUnit = 0, hasAdSpend = False \<rparr>)"
  by (simp add: results_def results_refund_def)

theorem invalid_sentinel_witness:
  "results (initialInputs\<lparr>sellingPrice := 0\<rparr>) =
      \<lparr> hasSellingPrice = False, breakevenRoas = 0, breakevenUnits = 0,
        profitPerUnit = 0, hasAdSpend = False \<rparr>
   \<and> results_refund (initialInputsRefund\<lparr>sellingPrice := - 5\<rparr>) =
      \<lparr> hasSellingPrice = False, breakevenRoas = 0, breakevenUnits = 0,
        profitPerUnit = 0, hasAdSpend = False \<rparr>"
  using invalid_sentinel [of "initialInputs\<lparr>sellingPrice := 0\<rparr>"
      "initialInputsRefund\<lparr>sellingPrice := - 5\<rparr>"]
  by (simp add: initialInputs_def initialInputsRefund_def)



subsection \<open>The margin table\<close>



text \<open>
  C5. The margin table always has exactly six entries, one for each of the target
  margins 0, 0.10, 0.20, 0.30, 0.40, 0.50, without duplicates, in the order of
  \<^verbatim>\<open>TARGET_MARGINS\<close>, which is strictly ascending.
\<close>

theorem marginScenarios_order:
  fixes cfg :: "'a CalcInputs_scheme"
  shows
    "length (marginScenarios cfg) = 6
     \<and> map margin (marginScenarios cfg) = [0, 0.10, 0.20, 0.30, 0.40, 0.50]
     \<and> map margin (marginScenarios cfg) = TARGET_MARGINS
     \<and> distinct (map margin (marginScenarios cfg))
     \<and> sorted_wrt (<) (map margin (marginScenarios cfg))"
  by (simp add: marginScenarios_def TARGET_MARGINS_def Let_def)

subsection \<open>No division by zero\<close>

lemma results_checked_total: "results_checked cfg = Some (results cfg)"
  by (simp add: results_checked_def results_def divide_checked_def Let_def)

lemma results_refund_checked_total:
  "results_refund_checked cfg = Some (results_refund cfg)"
  by (simp add: results_refund_checked_def results_refund_def divide_checked_def Let_def)

lemma marginScenario_checked_total:
  "marginScenario_checked cfg m =
    Some (
      let targetProfit = sellingPrice cfg * m;
          breakevenRoas' =
            (if targetProfit > 0.01 then Fin (sellingPrice cfg / targetProfit)
             else Infinity);
          breakevenOrders' =
            (if targetProfit > 0.01 then Fin (Math_ceil (adSpend cfg / targetProfit))
             else Infinity)
      in \<lparr> margin = m, price = sellingPrice cfg,
           profit = Math_round (targetProfit * 100) / 100,
           MarginScenario.breakevenRoas =
             (case breakevenRoas' of
                Fin r \<Rightarrow> Fin (Math_round (r * 100) / 100)
              | Infinity \<Rightarrow> Infinity),
           breakevenOrders =
             (if isFinite breakevenOrders' then breakevenOrders' else Infinity) \<rparr>)"
  by (simp add: marginScenario_checked_def divide_checked_def Let_def)

lemma those_map_total:
  "(\<And>x. g x = Some (f x)) \<Longrightarrow> those (map g xs) = Some (map f xs)"
  by (induction xs) simp_all

lemma marginScenarios_checked_total:
  "marginScenarios_checked cfg = Some (marginScenarios cfg)"
  unfolding marginScenarios_checked_def marginScenarios_def
  by (rule those_map_total) (rule marginScenario_checked_total)

lemma results_nonpositive_price:
  "sellingPrice cfg \<le> 0 \<Longrightarrow>
     results cfg =
       \<lparr> hasSellingPrice = False, breakevenRoas = 0, breakevenUnits = 0,
         profitPerUnit = 0, hasAdSpend = False \<rparr>"
  by (simp add: results_def)

lemma results_loss:
  "UnitResults.profitPerUnit (results cfg) \<le> 0 \<Longrightarrow>
     UnitResults.breakevenRoas (results cfg) = 0
     \<and> UnitResults.breakevenUnits (results cfg) = 0"
  by (simp add: results_def Let_def split: if_splits)

lemma results_no_fixed_costs:
  "adSpend cfg + monthlyOverhead cfg = 0 \<Longrightarrow>
     UnitResults.breakevenUnits (results cfg) = 0"
  by (simp add: results_def Let_def)

lemma marginScenarios_small_target:
  "\<forall>s \<in> set (marginScenarios cfg).
      sellingPrice cfg * margin s \<le> 0.01 \<longrightarrow>
        MarginScenario.breakevenRoas s = Infinity \<and> breakevenOrders s = Infinity"
  by (simp add: marginScenarios_def TARGET_MARGINS_def Let_def)

text \<open>
  C7. For every configuration the two computations return a value and no division in
  them meets a zero divisor: the checked bodies never fail and agree with the plain
  ones. A selling price that is zero or negative gives the sentinel, a profit per unit
  that is not positive gives zero breakeven outputs, zero fixed costs give zero
  breakeven units, and a target profit of at most 0.01 gives Infinity in the margin
  table.
\<close>

theorem no_failure:
  fixes cfg :: "'a CalcInputs_scheme" and cfgR :: "'b CalcInputsRefund_scheme"
  shows
    "results_checked cfg = Some (results cfg)
     \<and> results_refund_checked cfgR = Some (results_refund cfgR)
     \<and> marginScenarios_checked cfg = Some (marginScenarios cfg)
     \<and> (sellingPrice cfg \<le> 0 \<longrightarrow>
          results cfg =
            \<lparr> hasSellingPrice = False, breakevenRoas = 0, breakevenUnits = 0,
              profitPerUnit = 0, hasAdSpend = False \<rparr>)
     \<and> (UnitResults.profitPerUnit (results cfg) \<le> 0 \<longrightarrow>
          UnitResults.breakevenRoas (results cfg) = 0
          \<and> UnitResults.breakevenUnits (results cfg) = 0)
     \<and> (adSpend cfg + monthlyOverhead cfg = 0 \<longrightarrow>
          UnitResults.breakevenUnits (results cfg) = 0)
     \<and> (\<forall>s \<in> set (marginScenarios cfg).
          sellingPrice cfg * margin s \<le> 0.01 \<longrightarrow>
            MarginScenario.breakevenRoas s = Infinity \<and> breakevenOrders s = Infinity)"
  using results_checked_total results_refund_checked_total
    marginScenarios_checked_total results_nonpositive_price
    results_loss results_no_fixed_costs marginScenarios_small_target
  by blast

theorem no_failure_witness:
  "results_checked (initialInputs\<lparr>sellingPrice := - 1\<rparr>) =
      Some \<lparr> hasSellingPrice = False, breakevenRoas = 0, breakevenUnits = 0,
             profitPerUnit = 0, hasAdSpend = False \<rparr>
   \<and> results_refund_checked initialInputsRefund = Some (results_refund initialInputsRefund)
   \<and> UnitResults.breakevenRoas (results (initialInputs\<lparr>cogs := 50\<rparr>)) = 0
   \<and> UnitResults.breakevenUnits (results initialInputs) = 0
   \<and> marginScenarios_checked initialInputs = Some (marginScenarios initialInputs)
   \<and> MarginScenario.breakevenRoas (hd (marginScenarios initialInputs)) = Infinity"
  using no_failure [of "initialInputs\<lparr>sellingPrice := - 1\<rparr>" initialInputsRefund]
    no_failure [of "initialInputs\<lparr>cogs := 50\<rparr>" initialInputsRefund]
    no_failure [of initialInputs initialInputsRefund]
  by (simp add: initialInputs_def results_def marginScenarios_def TARGET_MARGINS_def
      Let_def)

subsection \<open>The bundle comparator\<close>



subsection \<open>The fee plan\<close>

text \<open>
  C9. Choosing a plan other than custom makes it the active plan and sets feesPercent
  and feesCents to the pair the table gives for it (2.9 and 30 for basic, 2.6 and 30
  for shopify, 2.4 and 30 for advanced). Editing feesPercent or feesCents makes custom
  the active plan. Neither action changes any other field of the inputs.
\<close>

theorem fee_plan_resolver:
  "(plan \<noteq> custom \<longrightarrow>
      shopifyPlan (handlePlanChange plan st) = plan
      \<and> feesPercent (inputs (handlePlanChange plan st)) = percent (SHOPIFY_FEES plan)
      \<and> feesCents (inputs (handlePlanChange plan st)) = cents (SHOPIFY_FEES plan)
      \<and> inputs (handlePlanChange plan st) =
          (inputs st)\<lparr>feesPercent := percent (SHOPIFY_FEES plan),
                       feesCents := cents (SHOPIFY_FEES plan)\<rparr>)
   \<and> (percent (SHOPIFY_FEES basic), cents (SHOPIFY_FEES basic)) = (2.9, 30)
   \<and> (percent (SHOPIFY_FEES shopify), cents (SHOPIFY_FEES shopify)) = (2.6, 30)
   \<and> (percent (SHOPIFY_FEES advanced), cents (SHOPIFY_FEES advanced)) = (2.4, 30)
   \<and> shopifyPlan (updateInput K_feesPercent v st) = custom
   \<and> inputs (updateInput K_feesPercent v st) = (inputs st)\<lparr>feesPercent := v\<rparr>
   \<and> shopifyPlan (updateInput K_feesCents v st) = custom
   \<and> inputs (updateInput K_feesCents v st) = (inputs st)\<lparr>feesCents := v\<rparr>"
  by (simp add: handlePlanChange_def updateInput_def SHOPIFY_FEES_def Let_def)

theorem fee_plan_resolver_witness:
  "handlePlanChange advanced initialState =
     \<lparr> inputs = initialInputs\<lparr>feesPercent := 2.4\<rparr>, shopifyPlan = advanced \<rparr>
   \<and> updateInput K_feesCents 25 initialState =
     \<lparr> inputs = initialInputs\<lparr>feesCents := 25\<rparr>, shopifyPlan = custom \<rparr>"
  using fee_plan_resolver [of advanced initialState 25]
  by (simp add: initialState_def initialInputs_def SHOPIFY_FEES_def)

subsection \<open>The single-point calculation of the preset and bundle edition\<close>




end
